theory Spec2Isabelle
  imports Complex_Main "HOL-Library.Sublist"
begin

section \<open>Reading Integrated Flight Format files: \<open>paraatm/io/iff_to_trx.py\<close>\<close>

text \<open>
  The module has one function, \<open>read_iff_file\<close>. It reads the format version from the
  first line, builds the column table \<open>cols\<close>, classifies every line by its leading
  integer, and then reads each requested record type with \<open>pandas.read_csv\<close>, filters by
  callsign, renames columns and converts the time and altitude columns.

  A file is modelled by the list of its lines (without the line terminators), text by
  \<open>string\<close>. Exceptions are values of the type \<open>error\<close>, named after the Python exception
  that is raised.
\<close>

subsection \<open>Exceptions\<close>

datatype key = IntKey int | StrKey string

datatype error =
    IndexError
  | InvalidVersion string
  | ValueError
  | KeyError key
  | ParserError
  | OutOfBoundsDatetime
  | TypeError

subsection \<open>Python strings\<close>

text \<open>\<open>s.split(c)\<close>: the pieces between the occurrences of \<open>c\<close>; never empty.\<close>

fun split :: "char \<Rightarrow> string \<Rightarrow> string list" where
  "split sep [] = [[]]"
| "split sep (c # cs) =
     (if c = sep then [] # split sep cs
      else (case split sep cs of w # ws \<Rightarrow> (c # w) # ws | [] \<Rightarrow> [[c]]))"

definition is_digit :: "char \<Rightarrow> bool" where
  "is_digit c = (c \<in> set ''0123456789'')"

text \<open>Python's \<open>str.isspace\<close> on the characters below 256 (also the class \<open>\s\<close> of \<open>re\<close>).\<close>

definition is_space :: "char \<Rightarrow> bool" where
  "is_space c = (let n = (of_char c :: nat) in
     (9 \<le> n \<and> n \<le> 13) \<or> (28 \<le> n \<and> n \<le> 32) \<or> n = 133 \<or> n = 160)"

definition digit_val :: "char \<Rightarrow> nat" where
  "digit_val c = of_char c - 48"

definition digits_val :: "string \<Rightarrow> nat" where
  "digits_val ds = foldl (\<lambda>a d. 10 * a + digit_val d) 0 ds"

definition strip :: "string \<Rightarrow> string" where
  "strip s = rev (dropWhile is_space (rev (dropWhile is_space s)))"

text \<open>
  \<open>int(s)\<close> for a string: surrounding whitespace is dropped, a sign is allowed, and the
  digits may be grouped by single underscores. Anything else is a \<open>ValueError\<close>.
\<close>

fun grouped_digits :: "string \<Rightarrow> bool" where
  "grouped_digits [] = False"
| "grouped_digits [c] = is_digit c"
| "grouped_digits (c # d # cs) =
     (is_digit c \<and> (if d = CHR ''_'' then grouped_digits cs else grouped_digits (d # cs)))"

definition py_int_unsigned :: "string \<Rightarrow> error + int" where
  "py_int_unsigned s =
     (if grouped_digits s then Inr (int (digits_val (filter is_digit s))) else Inl ValueError)"

definition py_int :: "string \<Rightarrow> error + int" where
  "py_int s =
     (case strip s of
        [] \<Rightarrow> Inl ValueError
      | c # cs \<Rightarrow>
          if c = CHR ''-'' then map_sum id uminus (py_int_unsigned cs)
          else if c = CHR ''+'' then py_int_unsigned cs
          else py_int_unsigned (c # cs))"

subsection \<open>\<open>pkg_resources.parse_version\<close>\<close>

text \<open>
  \<open>parse_version\<close> is \<open>packaging.version.Version\<close>: the string is matched against the
  PEP 440 pattern (whitespace, an optional \<open>v\<close>, an optional epoch \<open>N!\<close>, the release
  \<open>N(.N)*\<close>, optional pre-, post- and development tags, an optional local part
  \<open>+abc.1\<close>, whitespace), ignoring case, and \<open>InvalidVersion\<close> is raised when it does not
  match. Versions are compared by the key \<open>_cmpkey\<close> builds: the epoch, the release without
  its trailing zeros, then the tags with the sentinels \<open>Infinity\<close> and
  \<open>NegativeInfinity\<close> for the absent ones.
\<close>

datatype local_part = LocalNum nat | LocalStr string

datatype version = Version
  (epoch: nat)
  (release: "nat list")
  (pre: "(string \<times> nat) option")
  (post: "(string \<times> nat) option")
  (dev: "(string \<times> nat) option")
  (local_part_of: "local_part list option")

definition lower :: "char \<Rightarrow> char" where
  "lower c = (let n = (of_char c :: nat) in
     if 65 \<le> n \<and> n \<le> 90 then char_of (n + 32) else c)"

definition is_sep :: "char \<Rightarrow> bool" where
  "is_sep c = (c \<in> set ''-_.'')"

definition is_alnum :: "char \<Rightarrow> bool" where
  "is_alnum c = (is_digit c \<or> c \<in> set ''abcdefghijklmnopqrstuvwxyz'')"

text \<open>The release segment \<open>[0-9]+(\.[0-9]+)*\<close>, as long as it goes.\<close>

function release_tail :: "string \<Rightarrow> nat list \<times> string" where
  "release_tail s =
     (case s of
        c # d # t \<Rightarrow>
          if c = CHR ''.'' \<and> is_digit d
          then (case release_tail (dropWhile is_digit t) of
                  (ns, r) \<Rightarrow> (digits_val (d # takeWhile is_digit t) # ns, r))
          else ([], s)
      | _ \<Rightarrow> ([], s))"
  by pat_completeness auto
termination
  by (relation "measure length") (auto simp: length_dropWhile_le less_Suc_eq_le le_SucI)

declare release_tail.simps [simp del]

definition parse_release :: "string \<Rightarrow> (nat list \<times> string) option" where
  "parse_release s =
     (if takeWhile is_digit s = [] then None
      else (case release_tail (dropWhile is_digit s) of
              (ns, r) \<Rightarrow> Some (digits_val (takeWhile is_digit s) # ns, r)))"

definition parse_epoch :: "string \<Rightarrow> nat \<times> string" where
  "parse_epoch s =
     (case dropWhile is_digit s of
        c # r \<Rightarrow>
          if c = CHR ''!'' \<and> takeWhile is_digit s \<noteq> []
          then (digits_val (takeWhile is_digit s), r) else (0, s)
      | [] \<Rightarrow> (0, s))"

definition opt_sep :: "string \<Rightarrow> string" where
  "opt_sep s = (case s of c # t \<Rightarrow> if is_sep c then t else s | [] \<Rightarrow> s)"

definition opt_number :: "string \<Rightarrow> nat option \<times> string" where
  "opt_number s =
     (if takeWhile is_digit s = [] then (None, s)
      else (Some (digits_val (takeWhile is_digit s)), dropWhile is_digit s))"

text \<open>The alternatives of a letter group, tried in the order of the pattern.\<close>

fun first_match :: "string list \<Rightarrow> string \<Rightarrow> (string \<times> string) option" where
  "first_match [] s = None"
| "first_match (a # as) s =
     (if take (length a) s = a then Some (a, drop (length a) s) else first_match as s)"

text \<open>A group \<open>[-_.]? letters [-_.]? [0-9]*\<close>: the letter, the number if any, the rest.\<close>

definition letter_group ::
  "string list \<Rightarrow> string \<Rightarrow> ((string \<times> nat option) \<times> string) option" where
  "letter_group alts s =
     (case first_match alts (opt_sep s) of
        None \<Rightarrow> None
      | Some (l, r) \<Rightarrow> (case opt_number (opt_sep r) of (n, r') \<Rightarrow> Some ((l, n), r')))"

text \<open>\<open>_parse_letter_version\<close>, for a letter that is present.\<close>

definition parse_letter_version :: "string \<Rightarrow> nat option \<Rightarrow> string \<times> nat" where
  "parse_letter_version letter number =
     (let n = (case number of None \<Rightarrow> 0 | Some k \<Rightarrow> k);
          l = (if letter = ''alpha'' then ''a''
               else if letter = ''beta'' then ''b''
               else if letter \<in> set [''c'', ''pre'', ''preview''] then ''rc''
               else if letter \<in> set [''rev'', ''r''] then ''post''
               else letter)
      in (l, n))"

definition parse_pre :: "string \<Rightarrow> (string \<times> nat) option \<times> string" where
  "parse_pre s =
     (case letter_group [''alpha'', ''a'', ''beta'', ''b'', ''preview'', ''pre'', ''c'', ''rc''] s of
        None \<Rightarrow> (None, s)
      | Some ((l, n), r) \<Rightarrow> (Some (parse_letter_version l n), r))"

text \<open>The post release is \<open>-N\<close>, or else a letter group.\<close>

definition parse_post :: "string \<Rightarrow> (string \<times> nat) option \<times> string" where
  "parse_post s =
     (if s \<noteq> [] \<and> hd s = CHR ''-'' \<and> tl s \<noteq> [] \<and> is_digit (hd (tl s))
      then (Some (''post'', digits_val (takeWhile is_digit (tl s))), dropWhile is_digit (tl s))
      else (case letter_group [''post'', ''rev'', ''r''] s of
              None \<Rightarrow> (None, s)
            | Some ((l, n), r) \<Rightarrow> (Some (parse_letter_version l n), r)))"

definition parse_dev :: "string \<Rightarrow> (string \<times> nat) option \<times> string" where
  "parse_dev s =
     (case letter_group [''dev''] s of
        None \<Rightarrow> (None, s)
      | Some ((l, n), r) \<Rightarrow> (Some (parse_letter_version l n), r))"

text \<open>
  The local part \<open>\+[a-z0-9]+([-_.][a-z0-9]+)*\<close> runs to the trailing whitespace;
  \<open>_parse_local_version\<close> splits it at the separators.
\<close>

fun split_seps :: "string \<Rightarrow> string list" where
  "split_seps [] = [[]]"
| "split_seps (c # cs) =
     (if is_sep c then [] # split_seps cs
      else (case split_seps cs of w # ws \<Rightarrow> (c # w) # ws | [] \<Rightarrow> [[c]]))"

definition local_piece :: "string \<Rightarrow> local_part" where
  "local_piece p = (if list_all is_digit p then LocalNum (digits_val p) else LocalStr p)"

definition parse_local :: "string \<Rightarrow> (local_part list option) option" where
  "parse_local s =
     (case s of
        [] \<Rightarrow> Some None
      | c # t \<Rightarrow>
          if c = CHR ''+''
          then (if list_all (\<lambda>p. p \<noteq> [] \<and> list_all is_alnum p) (split_seps t)
                then Some (Some (map local_piece (split_seps t))) else None)
          else None)"

definition parse_version :: "string \<Rightarrow> error + version" where
  "parse_version raw =
     (let s0 = map lower (strip raw);
          s1 = (if s0 \<noteq> [] \<and> hd s0 = CHR ''v'' then tl s0 else s0);
          (e, s2) = parse_epoch s1
      in (case parse_release s2 of
            None \<Rightarrow> Inl (InvalidVersion raw)
          | Some (rel, s3) \<Rightarrow>
              (let (p, s4) = parse_pre s3;
                   (q, s5) = parse_post s4;
                   (d, s6) = parse_dev s5
               in (case parse_local s6 of
                     None \<Rightarrow> Inl (InvalidVersion raw)
                   | Some l \<Rightarrow> Inr (Version e rel p q d l)))))"

text \<open>
  The comparison key. \<open>Infinity\<close> is greater than everything and
  \<open>NegativeInfinity\<close> smaller; tuples and strings compare lexicographically, a proper
  prefix being smaller.
\<close>

datatype ord3 = Lt | Eq | Gt

datatype 'a with_inf = NegativeInfinity | Fin 'a | Infinity

definition cmp_nat :: "nat \<Rightarrow> nat \<Rightarrow> ord3" where
  "cmp_nat a b = (if a < b then Lt else if a = b then Eq else Gt)"

definition cmp_char :: "char \<Rightarrow> char \<Rightarrow> ord3" where
  "cmp_char a b = cmp_nat (of_char a) (of_char b)"

fun cmp_list :: "('a \<Rightarrow> 'a \<Rightarrow> ord3) \<Rightarrow> 'a list \<Rightarrow> 'a list \<Rightarrow> ord3" where
  "cmp_list c [] [] = Eq"
| "cmp_list c [] (y # ys) = Lt"
| "cmp_list c (x # xs) [] = Gt"
| "cmp_list c (x # xs) (y # ys) = (case c x y of Eq \<Rightarrow> cmp_list c xs ys | r \<Rightarrow> r)"

fun cmp_pair ::
  "('a \<Rightarrow> 'a \<Rightarrow> ord3) \<Rightarrow> ('b \<Rightarrow> 'b \<Rightarrow> ord3) \<Rightarrow> 'a \<times> 'b \<Rightarrow> 'a \<times> 'b \<Rightarrow> ord3" where
  "cmp_pair ca cb (a, b) (a', b') = (case ca a a' of Eq \<Rightarrow> cb b b' | r \<Rightarrow> r)"

fun cmp_inf :: "('a \<Rightarrow> 'a \<Rightarrow> ord3) \<Rightarrow> 'a with_inf \<Rightarrow> 'a with_inf \<Rightarrow> ord3" where
  "cmp_inf c NegativeInfinity NegativeInfinity = Eq"
| "cmp_inf c NegativeInfinity _ = Lt"
| "cmp_inf c _ NegativeInfinity = Gt"
| "cmp_inf c Infinity Infinity = Eq"
| "cmp_inf c Infinity _ = Gt"
| "cmp_inf c _ Infinity = Lt"
| "cmp_inf c (Fin a) (Fin b) = c a b"

definition cmp_letter :: "string \<times> nat \<Rightarrow> string \<times> nat \<Rightarrow> ord3" where
  "cmp_letter = cmp_pair (cmp_list cmp_char) cmp_nat"

type_synonym cmpkey =
  "nat \<times> nat list \<times> (string \<times> nat) with_inf \<times> (string \<times> nat) with_inf \<times>
   (string \<times> nat) with_inf \<times> (nat with_inf \<times> string) list with_inf"

definition strip_trailing_zeros :: "nat list \<Rightarrow> nat list" where
  "strip_trailing_zeros r = rev (dropWhile (\<lambda>x. x = 0) (rev r))"

definition local_key :: "local_part \<Rightarrow> nat with_inf \<times> string" where
  "local_key p = (case p of LocalNum i \<Rightarrow> (Fin i, []) | LocalStr s \<Rightarrow> (NegativeInfinity, s))"

definition cmpkey :: "version \<Rightarrow> cmpkey" where
  "cmpkey v =
     (epoch v,
      strip_trailing_zeros (release v),
      (if pre v = None \<and> post v = None \<and> dev v \<noteq> None then NegativeInfinity
       else (case pre v of None \<Rightarrow> Infinity | Some p \<Rightarrow> Fin p)),
      (case post v of None \<Rightarrow> NegativeInfinity | Some p \<Rightarrow> Fin p),
      (case dev v of None \<Rightarrow> Infinity | Some p \<Rightarrow> Fin p),
      (case local_part_of v of None \<Rightarrow> NegativeInfinity | Some l \<Rightarrow> Fin (map local_key l)))"

definition cmp_key :: "cmpkey \<Rightarrow> cmpkey \<Rightarrow> ord3" where
  "cmp_key =
     cmp_pair cmp_nat
       (cmp_pair (cmp_list cmp_nat)
          (cmp_pair (cmp_inf cmp_letter)
             (cmp_pair (cmp_inf cmp_letter)
                (cmp_pair (cmp_inf cmp_letter)
                   (cmp_inf (cmp_list (cmp_pair (cmp_inf cmp_nat) (cmp_list cmp_char))))))))"

text \<open>\<open>a >= b\<close> on versions.\<close>

definition version_ge :: "version \<Rightarrow> version \<Rightarrow> bool" where
  "version_ge a b = (cmp_key (cmpkey a) (cmpkey b) \<noteq> Lt)"

text \<open>The two thresholds, \<open>parse_version('2.13')\<close> and \<open>parse_version('2.15')\<close>.\<close>

definition v2_13 :: version where
  "v2_13 = Version 0 [2, 13] None None None None"

definition v2_15 :: version where
  "v2_15 = Version 0 [2, 15] None None None None"

subsection \<open>The column table\<close>

text \<open>The dictionary \<open>cols\<close> as first written, from the version 2.6 specification.\<close>

definition base_cols :: "int \<Rightarrow> string list option" where
  "base_cols = [
     0 \<mapsto> [''recType'', ''comment''],
     1 \<mapsto> [''recType'', ''fileType'', ''fileFormatVersion''],
     2 \<mapsto> [''recType'', ''recTime'', ''fltKey'', ''bcnCode'', ''cid'', ''Source'', ''msgType'',
          ''AcId'', ''recTypeCat'', ''acType'', ''Orig'', ''Dest'', ''opsType'', ''estOrig'',
          ''estDest''],
     3 \<mapsto> [''recType'', ''recTime'', ''fltKey'', ''bcnCode'', ''cid'', ''Source'', ''msgType'',
          ''AcId'', ''recTypeCat'', ''coord1'', ''coord2'', ''alt'', ''significance'',
          ''coord1Accur'', ''coord2Accur'', ''altAccur'', ''groundSpeed'', ''course'',
          ''rateOfClimb'', ''altQualifier'', ''altIndicator'', ''trackPtStatus'',
          ''leaderDir'', ''scratchPad'', ''msawInhibitInd'', ''assignedAltString'',
          ''controllingFac'', ''controllingSeg'', ''receivingFac'', ''receivingSec'',
          ''activeContr'', ''primaryContr'', ''kybrdSubset'', ''kybrdSymbol'', ''adsCode'',
          ''opsType'', ''airportCode''],
     4 \<mapsto> [''recType'', ''recTime'', ''fltKey'', ''bcnCode'', ''cid'', ''Source'', ''msgType'',
          ''AcId'', ''recTypeCat'', ''acType'', ''Orig'', ''Dest'', ''altcode'', ''alt'',
          ''maxAlt'', ''assignedAltString'', ''requestedAltString'', ''route'', ''estTime'',
          ''fltCat'', ''perfCat'', ''opsType'', ''equipList'', ''coordinationTime'',
          ''coordinationTimeType'', ''leaderDir'', ''scratchPad1'', ''scratchPad2'',
          ''fixPairScratchPad'', ''prefDepArrRoute'', ''prefDepRoute'', ''prefArrRoute''],
     5 \<mapsto> [''recType'', ''dataSource'', ''programName'', ''programVersion''],
     6 \<mapsto> [''recType'', ''recTime'', ''Source'', ''msgType'', ''rectypeCat'',
          ''sectorizationString''],
     7 \<mapsto> [''recType'', ''recTime'', ''fltKey'', ''bcnCode'', ''cid'', ''Source'', ''msgType'',
          ''AcId'', ''recTypeCat'', ''coord1'', ''coord2'', ''alt'', ''significance'',
          ''coord1Accur'', ''coord2Accur'', ''altAccur'', ''msawtype'', ''msawTimeCat'',
          ''msawLocCat'', ''msawMinSafeAlt'', ''msawIndex1'', ''msawIndex2'', ''msawVolID''],
     8 \<mapsto> [''recType'', ''recTime'', ''fltKey'', ''bcnCode'', ''cid'', ''Source'', ''msgType'',
          ''AcId'', ''recTypeCat'', ''acType'', ''Orig'', ''Dest'', ''depTime'', ''depTimeType'',
          ''arrTime'', ''arrTimeType''],
     9 \<mapsto> [''recType'', ''recTime'', ''fltKey'', ''bcnCode'', ''cid'', ''Source'', ''msgType'',
          ''AcId'', ''recTypeCat'', ''coord1'', ''coord2'', ''alt'', ''pitchAngle'',
          ''trueHeading'', ''rollAngle'', ''trueAirSpeed'', ''fltPhaseIndicator''],
     10 \<mapsto> [''recType'', ''recTime'', ''fltKey'', ''bcnCode'', ''cid'', ''Source'', ''msgType'',
          ''AcId'', ''recTypeCat'', ''configType'', ''configSpec'']]"

text \<open>\<open>cols[k] += xs\<close>, for a key that is present.\<close>

definition extend :: "(int \<Rightarrow> string list option) \<Rightarrow> int \<Rightarrow> string list \<Rightarrow> (int \<Rightarrow> string list option)" where
  "extend c k xs = c(k := map_option (\<lambda>old. old @ xs) (c k))"

definition cols_2_13 :: "(int \<Rightarrow> string list option) \<Rightarrow> (int \<Rightarrow> string list option)" where
  "cols_2_13 c =
     extend (extend (extend c 2 [''modeSCode''])
               3 [''trackNumber'', ''tptReturnType'', ''modeSCode''])
       4 [''coordinationPoint'', ''coordinationPointType'', ''trackNumber'', ''modeSCode'']"

definition cols_2_15 :: "(int \<Rightarrow> string list option) \<Rightarrow> (int \<Rightarrow> string list option)" where
  "cols_2_15 c = extend c 3 [''sensorTrackNumberList'', ''spi'', ''dvs'', ''dupM3a'', ''tid'']"

text \<open>The table after the two version tests.\<close>

definition cols :: "version \<Rightarrow> int \<Rightarrow> string list option" where
  "cols version =
     (let c1 = (if version_ge version v2_13 then cols_2_13 base_cols else base_cols);
          c2 = (if version_ge version v2_15 then cols_2_15 c1 else c1)
      in c2)"

subsection \<open>Sequencing of calls that may raise\<close>

definition bind :: "error + 'a \<Rightarrow> ('a \<Rightarrow> error + 'b) \<Rightarrow> error + 'b" where
  "bind m f = (case m of Inl e \<Rightarrow> Inl e | Inr x \<Rightarrow> f x)"

text \<open>A comprehension or a loop over a list, stopping at the first exception.\<close>

fun traverse :: "('a \<Rightarrow> error + 'b) \<Rightarrow> 'a list \<Rightarrow> error + 'b list" where
  "traverse f [] = Inr []"
| "traverse f (x # xs) =
     (case f x of
        Inl e \<Rightarrow> Inl e
      | Inr y \<Rightarrow> (case traverse f xs of Inl e \<Rightarrow> Inl e | Inr ys \<Rightarrow> Inr (y # ys)))"

subsection \<open>Data frames\<close>

text \<open>
  A cell of a data frame is missing (\<open>NaN\<close>, and \<open>NaT\<close> in a column of timestamps), a
  number, a string or a timestamp. Numbers carry their exact value: pandas stores a
  numeric column as \<open>float64\<close> (as \<open>int64\<close> when every token of the column is an integer),
  and the model agrees with it wherever that storage is exact. A timestamp is given by its
  seconds since the epoch.
\<close>

datatype cell = NaN | Num rat | Str string | Timestamp rat | NaT

datatype frame = DataFrame (columns: "string list") (rows: "cell list list")

definition index_of :: "'a \<Rightarrow> 'a list \<Rightarrow> nat" where
  "index_of x xs = length (takeWhile (\<lambda>y. y \<noteq> x) xs)"

text \<open>\<open>df[name]\<close> and \<open>df[name] = values\<close>, for a column that is present.\<close>

definition column :: "frame \<Rightarrow> string \<Rightarrow> cell list" where
  "column df name = map (\<lambda>r. r ! index_of name (columns df)) (rows df)"

definition set_column :: "frame \<Rightarrow> string \<Rightarrow> cell list \<Rightarrow> frame" where
  "set_column df name vals =
     DataFrame (columns df)
       (map (\<lambda>(r, v). r[index_of name (columns df) := v]) (zip (rows df) vals))"

subsection \<open>\<open>pandas.read_csv\<close>\<close>

text \<open>
  The call is \<open>read_csv(filename, header=None, skiprows=skiprows, names=names,
  usecols=names, na_values='?', chunksize=chunksize, low_memory=False)\<close>. The lines not
  skipped are cut at the commas and read in chunks of \<open>chunksize\<close> lines. Of each line
  the leading \<open>len(names)\<close> fields are used; a line that has fewer is filled up with
  missing values, and a chunk in which no line has that many fields is rejected
  (\<open>ParserError\<close>: too many columns specified). Each column of a chunk is converted as a
  whole: to numbers when every token is a number or a missing-value marker, otherwise to
  strings. The markers are those of pandas together with \<open>?\<close>.

  The model covers lines without the quote character. Tokens that pandas reads as booleans
  or as infinities are kept as strings.
\<close>

definition na_values :: "string list" where
  "na_values = [''?'', [], ''#N/A'', ''#N/A N/A'', ''#NA'', ''-1.#IND'', ''-1.#QNAN'',
     ''-NaN'', ''-nan'', ''1.#IND'', ''1.#QNAN'', ''<NA>'', ''N/A'', ''NA'', ''NULL'',
     ''NaN'', ''None'', ''n/a'', ''nan'', ''null'']"

definition is_na :: "string \<Rightarrow> bool" where
  "is_na t = (t \<in> set na_values)"

definition is_space_ascii :: "char \<Rightarrow> bool" where
  "is_space_ascii c = (let n = (of_char c :: nat) in (9 \<le> n \<and> n \<le> 13) \<or> n = 32)"

text \<open>A decimal numeral: digits with an optional point, and an optional exponent.\<close>

definition parse_exponent :: "string \<Rightarrow> (bool \<times> nat) option" where
  "parse_exponent s =
     (let neg = (s \<noteq> [] \<and> hd s = CHR ''-'');
          ds = (if s \<noteq> [] \<and> hd s \<in> set ''+-'' then tl s else s)
      in if ds \<noteq> [] \<and> list_all is_digit ds then Some (neg, digits_val ds) else None)"

definition parse_unsigned :: "string \<Rightarrow> rat option" where
  "parse_unsigned s =
     (let ip = takeWhile is_digit s;
          r1 = dropWhile is_digit s;
          pt = (r1 \<noteq> [] \<and> hd r1 = CHR ''.'');
          fp = (if pt then takeWhile is_digit (tl r1) else []);
          r2 = (if pt then dropWhile is_digit (tl r1) else r1);
          mant = (of_nat (digits_val (ip @ fp)) / 10 ^ length fp :: rat)
      in if ip = [] \<and> fp = [] then None
         else if r2 = [] then Some mant
         else if hd r2 \<in> set ''eE''
         then (case parse_exponent (tl r2) of
                 None \<Rightarrow> None
               | Some (neg, k) \<Rightarrow> Some (if neg then mant / 10 ^ k else mant * 10 ^ k))
         else None)"

definition parse_num :: "string \<Rightarrow> rat option" where
  "parse_num t =
     (let s = rev (dropWhile is_space_ascii (rev (dropWhile is_space_ascii t)))
      in if s \<noteq> [] \<and> hd s = CHR ''-'' then map_option uminus (parse_unsigned (tl s))
         else if s \<noteq> [] \<and> hd s = CHR ''+'' then parse_unsigned (tl s)
         else parse_unsigned s)"

definition convert_column :: "string list \<Rightarrow> cell list" where
  "convert_column ts =
     (if list_all (\<lambda>t. is_na t \<or> parse_num t \<noteq> None) ts
      then map (\<lambda>t. if is_na t then NaN else Num (the (parse_num t))) ts
      else map (\<lambda>t. if is_na t then NaN else Str t) ts)"

text \<open>The \<open>j\<close>-th field of a tokenised line; the empty token where the line is too short.\<close>

definition field :: "string list \<Rightarrow> nat \<Rightarrow> string" where
  "field toks j = (if j < length toks then toks ! j else [])"

definition read_chunk :: "string list \<Rightarrow> string list \<Rightarrow> error + frame" where
  "read_chunk names lines =
     (let toks = map (split CHR '','') lines
      in if lines \<noteq> [] \<and> list_all (\<lambda>t. length t < length names) toks
         then Inl ParserError
         else Inr (DataFrame names
                (map (\<lambda>i. map (\<lambda>j. convert_column (map (\<lambda>t. field t j) toks) ! i)
                              [0..<length names])
                     [0..<length lines])))"

function chunk_list :: "nat \<Rightarrow> 'a list \<Rightarrow> 'a list list" where
  "chunk_list n xs =
     (if n = 0 \<or> xs = [] then [] else take n xs # chunk_list n (drop n xs))"
  by pat_completeness auto
termination
  by (relation "measure (\<lambda>(n, xs). length xs)") auto

text \<open>The lines that \<open>skiprows\<close> leaves, in file order.\<close>

definition kept_lines :: "string list \<Rightarrow> nat list \<Rightarrow> string list" where
  "kept_lines file skiprows =
     map (\<lambda>i. file ! i) (filter (\<lambda>i. i \<notin> set skiprows) [0..<length file])"

text \<open>
  The chunks the reader will yield, as lists of lines. A reader with nothing to read
  yields one empty chunk. \<open>chunksize\<close> must be at least 1.
\<close>

definition read_csv :: "string list \<Rightarrow> nat list \<Rightarrow> nat \<Rightarrow> error + string list list" where
  "read_csv file skiprows chunksize =
     (if chunksize = 0 then Inl ValueError
      else if kept_lines file skiprows = [] then Inr [[]]
      else Inr (chunk_list chunksize (kept_lines file skiprows)))"

subsection \<open>Filtering, concatenation and normalisation\<close>

text \<open>\<open>chunk[chunk['AcId'].isin(callsigns)]\<close>\<close>

definition isin :: "cell \<Rightarrow> string list \<Rightarrow> bool" where
  "isin c callsigns = (case c of Str s \<Rightarrow> s \<in> set callsigns | _ \<Rightarrow> False)"

definition filter_callsigns :: "string list \<Rightarrow> frame \<Rightarrow> error + frame" where
  "filter_callsigns callsigns chunk =
     (if ''AcId'' \<in> set (columns chunk)
      then Inr (DataFrame (columns chunk)
                  (filter (\<lambda>r. isin (r ! index_of ''AcId'' (columns chunk)) callsigns)
                     (rows chunk)))
      else Inl (KeyError (StrKey ''AcId'')))"

text \<open>\<open>pd.concat(chunks, ignore_index=True)\<close> of frames with the columns \<open>names\<close>.\<close>

definition concat_frames :: "string list \<Rightarrow> frame list \<Rightarrow> frame" where
  "concat_frames names chunks = DataFrame names (concat (map rows chunks))"

definition rename_column :: "string \<Rightarrow> string" where
  "rename_column c =
     (if c = ''recTime'' then ''time''
      else if c = ''AcId'' then ''callsign''
      else if c = ''coord1'' then ''latitude''
      else if c = ''coord2'' then ''longitude''
      else if c = ''alt'' then ''altitude''
      else if c = ''rateOfClimb'' then ''rocd''
      else if c = ''groundSpeed'' then ''tas''
      else if c = ''course'' then ''heading''
      else c)"

definition rename :: "frame \<Rightarrow> frame" where
  "rename df = DataFrame (map rename_column (columns df)) (rows df)"

text \<open>
  \<open>pd.to_datetime(column, unit='s')\<close>: a missing value becomes \<open>NaT\<close>, a number of
  seconds becomes a timestamp if it lies in the range of 64-bit nanoseconds, and a column
  that holds text is rejected.
\<close>

definition to_datetime :: "cell \<Rightarrow> error + cell" where
  "to_datetime c =
     (case c of
        NaN \<Rightarrow> Inr NaT
      | NaT \<Rightarrow> Inr NaT
      | Timestamp t \<Rightarrow> Inr (Timestamp t)
      | Num x \<Rightarrow>
          if - 9223372036854775807 \<le> x * 10 ^ 9 \<and> x * 10 ^ 9 \<le> 9223372036854775807
          then Inr (Timestamp x) else Inl OutOfBoundsDatetime
      | Str s \<Rightarrow> Inl ValueError)"

text \<open>\<open>x * 100\<close>, element by element: numbers are scaled, strings repeated.\<close>

definition times_100 :: "cell \<Rightarrow> error + cell" where
  "times_100 c =
     (case c of
        NaN \<Rightarrow> Inr NaN
      | Num x \<Rightarrow> Inr (Num (x * 100))
      | Str s \<Rightarrow> Inr (Str (concat (replicate 100 s)))
      | Timestamp t \<Rightarrow> Inl TypeError
      | NaT \<Rightarrow> Inl TypeError)"

definition convert_time :: "frame \<Rightarrow> error + frame" where
  "convert_time df =
     (if ''time'' \<in> set (columns df)
      then bind (traverse to_datetime (column df ''time'')) (\<lambda>ts. Inr (set_column df ''time'' ts))
      else Inr df)"

definition convert_altitude :: "frame \<Rightarrow> error + frame" where
  "convert_altitude df =
     (if ''altitude'' \<in> set (columns df)
      then bind (traverse times_100 (column df ''altitude''))
             (\<lambda>vs. Inr (set_column df ''altitude'' vs))
      else Inr df)"

subsection \<open>\<open>read_iff_file\<close>\<close>

datatype record_types = All | Many "int list" | Scalar int

datatype callsigns = NoCallsigns | OneCallsign string | Callsigns "string list"

datatype result = Table frame | Dict "(int \<times> frame) list"

text \<open>Lines 58-59: the version is the third field of the first line.\<close>

definition detect_version :: "string list \<Rightarrow> error + version" where
  "detect_version file =
     (let fields = split CHR '','' (case file of [] \<Rightarrow> [] | l # _ \<Rightarrow> l)
      in if 2 < length fields then parse_version (fields ! 2) else Inl IndexError)"

text \<open>Line 91: the record type of each line.\<close>

definition line_record_types :: "string list \<Rightarrow> error + int list" where
  "line_record_types file = traverse (\<lambda>line. py_int (hd (split CHR '','' line))) file"

text \<open>\<open>np.unique\<close>: the distinct values, ascending.\<close>

definition unique :: "int list \<Rightarrow> int list" where
  "unique xs = sort (remdups xs)"

text \<open>\<open>np.atleast_1d\<close> on the callsigns that are given.\<close>

definition callsign_list :: "callsigns \<Rightarrow> string list option" where
  "callsign_list c =
     (case c of NoCallsigns \<Rightarrow> None | OneCallsign s \<Rightarrow> Some [s] | Callsigns l \<Rightarrow> Some l)"

text \<open>Lines 117-120: the chunks, each filtered as it is read, then concatenated.\<close>

definition read_frame ::
  "string list \<Rightarrow> nat list \<Rightarrow> string list \<Rightarrow> string list option \<Rightarrow> nat \<Rightarrow> error + frame" where
  "read_frame file skiprows names callsigns chunksize =
     bind (read_csv file skiprows chunksize) (\<lambda>chunks.
     bind (traverse (\<lambda>lines.
             bind (read_chunk names lines) (\<lambda>chunk.
               case callsigns of None \<Rightarrow> Inr chunk | Some cs \<Rightarrow> filter_callsigns cs chunk))
             chunks) (\<lambda>frames.
     Inr (concat_frames names frames)))"

text \<open>The body of the loop over the record types, up to the frame that is stored.\<close>

definition read_record_type ::
  "version \<Rightarrow> string list \<Rightarrow> int list \<Rightarrow> string list option \<Rightarrow> nat \<Rightarrow> int \<Rightarrow> error + frame" where
  "read_record_type version file lrts callsigns chunksize record_type =
     (let skiprows = filter (\<lambda>i. lrts ! i \<noteq> record_type) [0..<length lrts]
      in case cols version record_type of
           None \<Rightarrow> Inl (KeyError (IntKey record_type))
         | Some names \<Rightarrow>
             bind (read_frame file skiprows names callsigns chunksize) (\<lambda>df.
             bind (convert_time (rename df)) convert_altitude))"

text \<open>\<open>data_frames[k] = df\<close> on a dictionary kept in insertion order.\<close>

fun dict_set :: "(int \<times> frame) list \<Rightarrow> int \<Rightarrow> frame \<Rightarrow> (int \<times> frame) list" where
  "dict_set [] k v = [(k, v)]"
| "dict_set ((k', v') # d) k v =
     (if k' = k then (k, v) # d else (k', v') # dict_set d k v)"

fun read_all ::
  "(int \<Rightarrow> error + frame) \<Rightarrow> int list \<Rightarrow> (int \<times> frame) list \<Rightarrow> error + (int \<times> frame) list" where
  "read_all body [] data_frames = Inr data_frames"
| "read_all body (record_type # rest) data_frames =
     (case body record_type of
        Inl e \<Rightarrow> Inl e
      | Inr df \<Rightarrow> read_all body rest (dict_set data_frames record_type df))"

definition read_iff_file ::
  "string list \<Rightarrow> record_types \<Rightarrow> callsigns \<Rightarrow> nat \<Rightarrow> error + result" where
  "read_iff_file file record_types callsigns chunksize =
     bind (detect_version file) (\<lambda>version.
     bind (line_record_types file) (\<lambda>lrts.
       let rts = (case record_types of
                    All \<Rightarrow> unique lrts | Many xs \<Rightarrow> xs | Scalar x \<Rightarrow> [x]);
           scalar_result = (case record_types of Scalar x \<Rightarrow> True | _ \<Rightarrow> False)
       in bind (read_all (read_record_type version file lrts (callsign_list callsigns) chunksize)
                  rts [])
            (\<lambda>data_frames.
               if scalar_result
               then (case map_of data_frames (hd rts) of
                       None \<Rightarrow> Inl (KeyError (IntKey (hd rts)))
                     | Some df \<Rightarrow> Inr (Table df))
               else Inr (Dict data_frames))))"

subsection \<open>Notions used to state the properties\<close>

text \<open>
  Field-by-field numeric comparison of two dotted versions, a missing field counting as
  zero: \<open>numeric_ge as bs\<close> is the order the specification calls semantic.
\<close>

fun numeric_ge :: "nat list \<Rightarrow> nat list \<Rightarrow> bool" where
  "numeric_ge [] bs = list_all (\<lambda>b. b = 0) bs"
| "numeric_ge (a # as) [] = True"
| "numeric_ge (a # as) (b # bs) = (b < a \<or> (a = b \<and> numeric_ge as bs))"

text \<open>A version that is its release segment only, as a dotted numeric string gives.\<close>

definition release_only :: "version \<Rightarrow> bool" where
  "release_only v =
     (epoch v = 0 \<and> pre v = None \<and> post v = None \<and> dev v = None \<and> local_part_of v = None)"

text \<open>A dotted numeric string: digits in groups, the groups separated by single dots.\<close>

definition dotted_numeric :: "string \<Rightarrow> bool" where
  "dotted_numeric s = list_all (\<lambda>p. p \<noteq> [] \<and> list_all is_digit p) (split CHR ''.'' s)"

text \<open>Two small files, used where a property is shown on a concrete input.\<close>

definition sample_file :: "string list" where
  "sample_file =
     [''1,IFF,2.15'',
      ''5,src,prog,1.0'',
      ''5,src'',
      ''0,note'',
      ''6,1372636800.5,S,M,C,abc'',
      ''6,?,S,M,C,abc'']"

definition track_file :: "string list" where
  "track_file =
     [''1,IFF,2.15'',
      ''9,100,k,b,c,S,m,UAL1,cat,37.5,-122.25,350,1,2,3,4,5'',
      ''9,?,k,b,c,S,m,DAL2,cat,37.5,-122.25,?,1,2,3,4,5,,'',
      ''9,160,k,b,c,S,m,UAL1,cat,37.5,-122.25,12.5'']"

section \<open>Properties\<close>

subsection \<open>Sequencing\<close>

lemma bind_Inr [simp]: "bind (Inr x) f = f x"
  by (simp add: bind_def)

lemma bind_Inl [simp]: "bind (Inl e) f = Inl e"
  by (simp add: bind_def)

lemma bind_eq_Inr: "bind m f = Inr y \<longleftrightarrow> (\<exists>x. m = Inr x \<and> f x = Inr y)"
  by (cases m) simp_all

lemma traverse_Inl: "traverse f xs = Inl e \<Longrightarrow> \<exists>x \<in> set xs. f x = Inl e"
  by (induction xs) (auto split: sum.splits)

lemma traverse_Inr: "traverse f xs = Inr ys \<longleftrightarrow> list_all2 (\<lambda>x y. f x = Inr y) xs ys"
proof (induction xs arbitrary: ys)
  case Nil
  show ?case by auto
next
  case (Cons x xs)
  show ?case
  proof (cases "f x")
    case (Inl e)
    then show ?thesis by (simp add: list_all2_Cons1)
  next
    case (Inr y)
    then show ?thesis
      by (cases "traverse f xs") (auto simp: list_all2_Cons1 simp flip: Cons.IH)
  qed
qed

lemma traverse_hd_Inl: "isl (f x) \<Longrightarrow> isl (traverse f (x # xs))"
  by (cases "f x") simp_all

subsection \<open>The column table and the version\<close>

lemma parse_2_13: "parse_version ''2.13'' = Inr v2_13"
  unfolding v2_13_def by code_simp

lemma parse_2_15: "parse_version ''2.15'' = Inr v2_15"
  unfolding v2_15_def by code_simp

lemma base_cols_dom: "base_cols rt \<noteq> None \<longleftrightarrow> rt \<in> {0..10}"
proof -
  have "rt \<in> {0..10} \<longleftrightarrow> rt \<in> {0,1,2,3,4,5,6,7,8,9,10}"
    by (simp only: atLeastAtMost_iff) (auto simp del: insert_iff, presburger+)
  thus ?thesis unfolding base_cols_def by (auto simp del: atLeastAtMost_iff)
qed

lemma cols_untouched:
  "rt \<noteq> 2 \<Longrightarrow> rt \<noteq> 3 \<Longrightarrow> rt \<noteq> 4 \<Longrightarrow> cols v rt = base_cols rt"
  by (simp add: cols_def cols_2_13_def cols_2_15_def extend_def Let_def)

lemma cols_2: "cols v 2 = map_option (\<lambda>b. b @ (if version_ge v v2_13 then [''modeSCode''] else [])) (base_cols 2)"
  by (simp add: cols_def cols_2_13_def cols_2_15_def extend_def Let_def base_cols_def)

lemma cols_4: "cols v 4 = map_option (\<lambda>b. b @ (if version_ge v v2_13 then [''coordinationPoint'', ''coordinationPointType'', ''trackNumber'', ''modeSCode''] else [])) (base_cols 4)"
  by (simp add: cols_def cols_2_13_def cols_2_15_def extend_def Let_def base_cols_def)

lemma cols_3: "cols v 3 = map_option (\<lambda>b. b @ (if version_ge v v2_13 then [''trackNumber'', ''tptReturnType'', ''modeSCode''] else [])
      @ (if version_ge v v2_15 then [''sensorTrackNumberList'', ''spi'', ''dvs'', ''dupM3a'', ''tid''] else [])) (base_cols 3)"
  by (simp add: cols_def cols_2_13_def cols_2_15_def extend_def Let_def base_cols_def)


text \<open>
  C2. Whatever the version, the schema of record types 2, 3 and 4 holds \<open>modeSCode\<close>
  exactly when the version is at least 2.13, the schema of record type 3 holds each of
  the five fields of 2.15 exactly when the version is at least 2.15, and every schema is
  its base list followed by what was appended.
\<close>

theorem C2_schema_version_gates:
  "(\<forall>rt \<in> {2, 3, 4}. \<exists>base ext. base_cols rt = Some base \<and> cols v rt = Some (base @ ext) \<and>
        (''modeSCode'' \<in> set (base @ ext) \<longleftrightarrow> version_ge v v2_13))
   \<and> (\<exists>base ext. base_cols 3 = Some base \<and> cols v 3 = Some (base @ ext) \<and>
        (\<forall>f \<in> set [''sensorTrackNumberList'', ''spi'', ''dvs'', ''dupM3a'', ''tid''].
            f \<in> set (base @ ext) \<longleftrightarrow> version_ge v v2_15))
   \<and> (\<forall>rt base. base_cols rt = Some base \<longrightarrow> (\<exists>ext. cols v rt = Some (base @ ext)))
   \<and> parse_version ''2.13'' = Inr v2_13 \<and> parse_version ''2.15'' = Inr v2_15"
proof (intro conjI)
  show "\<forall>rt \<in> {2, 3, 4}. \<exists>base ext. base_cols rt = Some base \<and> cols v rt = Some (base @ ext) \<and>
        (''modeSCode'' \<in> set (base @ ext) \<longleftrightarrow> version_ge v v2_13)"
  proof
    fix rt :: int assume "rt \<in> {2, 3, 4}"
    then consider "rt = 2" | "rt = 3" | "rt = 4" by auto
    then show "\<exists>base ext. base_cols rt = Some base \<and> cols v rt = Some (base @ ext) \<and>
        (''modeSCode'' \<in> set (base @ ext) \<longleftrightarrow> version_ge v v2_13)"
    proof cases
      case 1 then show ?thesis by (simp add: cols_2) (simp add: base_cols_def)
    next
      case 2 then show ?thesis by (simp add: cols_3) (simp add: base_cols_def)
    next
      case 3 then show ?thesis by (simp add: cols_4) (simp add: base_cols_def)
    qed
  qed
next
  show "\<exists>base ext. base_cols 3 = Some base \<and> cols v 3 = Some (base @ ext) \<and>
        (\<forall>f \<in> set [''sensorTrackNumberList'', ''spi'', ''dvs'', ''dupM3a'', ''tid''].
            f \<in> set (base @ ext) \<longleftrightarrow> version_ge v v2_15)"
    by (simp add: cols_3) (simp add: base_cols_def)
next
  show "\<forall>rt base. base_cols rt = Some base \<longrightarrow> (\<exists>ext. cols v rt = Some (base @ ext))"
  proof (intro allI impI)
    fix rt base assume b: "base_cols rt = Some base"
    consider "rt = 2" | "rt = 3" | "rt = 4" | "rt \<noteq> 2 \<and> rt \<noteq> 3 \<and> rt \<noteq> 4" by auto
    then show "\<exists>ext. cols v rt = Some (base @ ext)"
    proof cases
      case 1 with b show ?thesis by (simp add: cols_2)
    next
      case 2 with b show ?thesis by (simp add: cols_3)
    next
      case 3 with b show ?thesis by (simp add: cols_4)
    next
      case 4 with b show ?thesis by (simp add: cols_untouched)
    qed
  qed
next
  show "parse_version ''2.13'' = Inr v2_13" by (rule parse_2_13)
next
  show "parse_version ''2.15'' = Inr v2_15" by (rule parse_2_15)
qed

lemma ge_13_13: "version_ge v2_13 v2_13" unfolding v2_13_def by code_simp
lemma ge_13_15: "\<not> version_ge v2_13 v2_15" unfolding v2_13_def v2_15_def by code_simp

theorem C2_schema_version_gates_witness:
  "(2::int) \<in> {2, 3, 4} \<and> ''modeSCode'' \<in> set (the (cols v2_13 2))
   \<and> ''spi'' \<in> set [''sensorTrackNumberList'', ''spi'', ''dvs'', ''dupM3a'', ''tid'']
   \<and> ''spi'' \<notin> set (the (cols v2_13 3))
   \<and> base_cols 5 = Some [''recType'', ''dataSource'', ''programName'', ''programVersion'']
   \<and> (\<exists>ext. cols v2_13 5 =
         Some ([''recType'', ''dataSource'', ''programName'', ''programVersion''] @ ext))"
proof -
  note t = C2_schema_version_gates [of v2_13]
  have in2: "(2::int) \<in> {2, 3, 4}" by simp
  have spi: "''spi'' \<in> set [''sensorTrackNumberList'', ''spi'', ''dvs'', ''dupM3a'', ''tid'']"
    by simp
  have c: "base_cols 5 = Some [''recType'', ''dataSource'', ''programName'', ''programVersion'']"
    by (simp add: base_cols_def)
  from t in2 obtain base ext where "cols v2_13 2 = Some (base @ ext)"
    and "(''modeSCode'' \<in> set (base @ ext)) = version_ge v2_13 v2_13" by blast
  with ge_13_13 have m: "''modeSCode'' \<in> set (the (cols v2_13 2))"
    by simp
  from t spi obtain base3 ext3 where "cols v2_13 3 = Some (base3 @ ext3)"
    and "(''spi'' \<in> set (base3 @ ext3)) = version_ge v2_13 v2_15" by blast
  with ge_13_15 have n: "''spi'' \<notin> set (the (cols v2_13 3))"
    by simp
  from t c have e: "\<exists>ext. cols v2_13 5 =
         Some ([''recType'', ''dataSource'', ''programName'', ''programVersion''] @ ext)"
    by blast
  from in2 m spi n c e show ?thesis by (intro conjI)
qed


lemma strip_trailing_zeros_Nil [simp]: "strip_trailing_zeros [] = []"
  by (simp add: strip_trailing_zeros_def)

lemma strip_trailing_zeros_Cons:
  "strip_trailing_zeros (a # as) =
     (if strip_trailing_zeros as = [] \<and> a = 0 then [] else a # strip_trailing_zeros as)"
  by (auto simp: strip_trailing_zeros_def dropWhile_append)

lemma strip_trailing_zeros_empty:
  "strip_trailing_zeros as = [] \<longleftrightarrow> list_all (\<lambda>b. b = 0) as"
  by (induction as) (auto simp: strip_trailing_zeros_Cons)

lemma cmp_nat_simps:
  "cmp_nat a b = Lt \<longleftrightarrow> a < b" "cmp_nat a b = Eq \<longleftrightarrow> a = b" "cmp_nat a b = Gt \<longleftrightarrow> b < a"
  by (auto simp: cmp_nat_def)

lemma cmp_list_Nil_right: "cmp_list c xs [] \<noteq> Lt"
  by (cases xs) simp_all

lemma cmp_list_Nil_left: "cmp_list c [] ys \<noteq> Lt \<longleftrightarrow> ys = []"
  by (cases ys) simp_all

lemma release_cmp:
  "cmp_list cmp_nat (strip_trailing_zeros as) (strip_trailing_zeros bs) \<noteq> Lt
     \<longleftrightarrow> numeric_ge as bs"
proof (induction as bs rule: numeric_ge.induct)
  case (1 bs)
  show ?case
    by (simp add: cmp_list_Nil_left strip_trailing_zeros_empty)
next
  case (2 a as)
  show ?case by (simp add: cmp_list_Nil_right)
next
  case (3 a as b bs)
  have ih: "a = b \<Longrightarrow> cmp_list cmp_nat (strip_trailing_zeros as) (strip_trailing_zeros bs) \<noteq> Lt
     \<longleftrightarrow> numeric_ge as bs"
    using 3 by (cases "b < a") simp_all
  show ?case
  proof (cases "strip_trailing_zeros as = [] \<and> a = 0")
    case True
    then show ?thesis
      using ih by (auto simp: strip_trailing_zeros_Cons cmp_list_Nil_left)
  next
    case A: False
    show ?thesis
    proof (cases "strip_trailing_zeros bs = [] \<and> b = 0")
      case True
      then show ?thesis
        using A ih by (auto simp: strip_trailing_zeros_Cons cmp_list_Nil_right)
    next
      case B: False
      have e: "cmp_list cmp_nat (strip_trailing_zeros (a # as)) (strip_trailing_zeros (b # bs))
          = (case cmp_nat a b of Eq \<Rightarrow>
               cmp_list cmp_nat (strip_trailing_zeros as) (strip_trailing_zeros bs) | r \<Rightarrow> r)"
      proof -
        from A have sa: "strip_trailing_zeros (a # as) = a # strip_trailing_zeros as"
          by (subst strip_trailing_zeros_Cons) (rule if_not_P)
        from B have sb: "strip_trailing_zeros (b # bs) = b # strip_trailing_zeros bs"
          by (subst strip_trailing_zeros_Cons) (rule if_not_P)
        show ?thesis unfolding sa sb by simp
      qed
      show ?thesis
      proof (cases "cmp_nat a b")
        case Lt
        then have "a < b" by (simp add: cmp_nat_simps)
        with e Lt show ?thesis by simp
      next
        case Eq
        then have "a = b" by (simp add: cmp_nat_simps)
        with e Eq ih show ?thesis by simp
      next
        case Gt
        then have "b < a" by (simp add: cmp_nat_simps)
        with e Gt show ?thesis by simp
      qed
    qed
  qed
qed

lemma version_ge_release:
  "release_only a \<Longrightarrow> release_only b \<Longrightarrow>
     version_ge a b = numeric_ge (release a) (release b)"
  by (cases "cmp_list cmp_nat (strip_trailing_zeros (release a)) (strip_trailing_zeros (release b))")
     (simp_all add: version_ge_def cmpkey_def cmp_key_def release_only_def cmp_nat_def
        flip: release_cmp)

text \<open>
  C6. The order that decides the append rules is numeric and field by field: on versions
  that are a release segment only, \<open>>=\<close> is \<open>numeric_ge\<close> on the lists of numbers. So
  \<open>2.9\<close> comes strictly before \<open>2.13\<close>, although as strings they compare the other
  way round.
\<close>

theorem C6_version_order_is_numeric:
  "(release_only a \<longrightarrow> release_only b \<longrightarrow>
      version_ge a b = numeric_ge (release a) (release b))
   \<and> parse_version ''2.9'' = Inr (Version 0 [2, 9] None None None None)
   \<and> parse_version ''2.13'' = Inr v2_13
   \<and> \<not> version_ge (Version 0 [2, 9] None None None None) v2_13
   \<and> version_ge v2_13 (Version 0 [2, 9] None None None None)
   \<and> cmp_list cmp_char ''2.9'' ''2.13'' = Gt"
proof (intro conjI impI)
  show "parse_version ''2.9'' = Inr (Version 0 [2, 9] None None None None)"
    by code_simp
  show "parse_version ''2.13'' = Inr v2_13" by (rule parse_2_13)
  show "\<not> version_ge (Version 0 [2, 9] None None None None) v2_13"
    unfolding v2_13_def by code_simp
  show "version_ge v2_13 (Version 0 [2, 9] None None None None)"
    unfolding v2_13_def by code_simp
  show "cmp_list cmp_char ''2.9'' ''2.13'' = Gt" by code_simp
qed (rule version_ge_release)

theorem C6_version_order_is_numeric_witness:
  "release_only (Version 0 [2, 9] None None None None) \<and> release_only v2_13
   \<and> version_ge (Version 0 [2, 9] None None None None) v2_13 = numeric_ge [2, 9] [2, 13]
   \<and> \<not> numeric_ge [2, 9] [2, 13]"
proof -
  have a: "release_only (Version 0 [2, 9] None None None None)"
    by (simp add: release_only_def)
  have b: "release_only v2_13" by (simp add: release_only_def v2_13_def)
  from C6_version_order_is_numeric [of "Version 0 [2, 9] None None None None" v2_13] a b
  have "version_ge (Version 0 [2, 9] None None None None) v2_13
          = numeric_ge (release (Version 0 [2, 9] None None None None)) (release v2_13)"
    by blast
  then have c: "version_ge (Version 0 [2, 9] None None None None) v2_13
          = numeric_ge [2, 9] [2, 13]"
    by (simp add: v2_13_def)
  have d: "\<not> numeric_ge [2, 9] [2, 13]" by simp
  from a b c d show ?thesis by (intro conjI)
qed

subsection \<open>Dotted numeric strings are versions\<close>

lemma split_not_Nil [simp]: "split c s \<noteq> []"
  by (induction s) (auto split: list.splits)

lemma is_digit_cases:
  "is_digit c \<Longrightarrow> \<not> is_space c \<and> lower c = c \<and> c \<noteq> CHR ''v'' \<and> c \<noteq> CHR ''!'' \<and> c \<noteq> CHR ''.''"
  unfolding is_digit_def by (auto simp: is_space_def lower_def Let_def)

lemma dot_plain: "\<not> is_space CHR ''.'' \<and> lower CHR ''.'' = CHR ''.'' \<and> \<not> is_digit CHR ''.''"
  by (simp add: is_space_def lower_def is_digit_def)

lemma release_of_pieces:
  "list_all is_digit (hd (split CHR ''.'' s)) \<Longrightarrow>
   list_all (\<lambda>p. p \<noteq> [] \<and> list_all is_digit p) (tl (split CHR ''.'' s)) \<Longrightarrow>
     takeWhile is_digit s = hd (split CHR ''.'' s) \<and>
     release_tail (dropWhile is_digit s) = (map digits_val (tl (split CHR ''.'' s)), []) \<and>
     (\<forall>c \<in> set s. is_digit c \<or> c = CHR ''.'')"
proof (induction s)
  case Nil
  show ?case by (simp add: release_tail.simps [of "[]"])
next
  case (Cons c cs)
  obtain w ws where sp: "split CHR ''.'' cs = w # ws"
    by (cases "split CHR ''.'' cs") simp_all
  show ?case
  proof (cases "c = CHR ''.''")
    case True
    from Cons.prems True sp have w: "w \<noteq> []" "list_all is_digit w"
      and ws: "list_all (\<lambda>p. p \<noteq> [] \<and> list_all is_digit p) ws" by simp_all
    from Cons.IH sp w ws have tw: "takeWhile is_digit cs = w"
      and rt: "release_tail (dropWhile is_digit cs) = (map digits_val ws, [])"
      and al: "\<forall>c \<in> set cs. is_digit c \<or> c = CHR ''.''" by simp_all
    from tw w obtain d t where cs: "cs = d # t" and d: "is_digit d"
      by (cases cs) (auto split: if_splits)
    from tw cs d have tw': "d # takeWhile is_digit t = w" by simp
    from rt cs d have rt': "release_tail (dropWhile is_digit t) = (map digits_val ws, [])"
      by simp
    have "release_tail (CHR ''.'' # d # t) = (digits_val w # map digits_val ws, [])"
      by (subst release_tail.simps) (simp add: d rt' tw')
    with True sp cs al show ?thesis by (simp add: dot_plain)
  next
    case False
    from Cons.prems False sp have c: "is_digit c" and w: "list_all is_digit w"
      and ws: "list_all (\<lambda>p. p \<noteq> [] \<and> list_all is_digit p) ws" by simp_all
    from Cons.IH sp w ws have tw: "takeWhile is_digit cs = w"
      and rt: "release_tail (dropWhile is_digit cs) = (map digits_val ws, [])"
      and al: "\<forall>c \<in> set cs. is_digit c \<or> c = CHR ''.''" by simp_all
    with False sp c show ?thesis by simp
  qed
qed

lemma parse_tail_empty:
  "parse_pre [] = (None, [])" "parse_post [] = (None, [])" "parse_dev [] = (None, [])"
  "parse_local [] = Some None"
  by (simp_all add: parse_pre_def parse_post_def parse_dev_def parse_local_def
        letter_group_def opt_sep_def)

lemma parse_version_dotted:
  assumes "dotted_numeric s"
  shows "parse_version s = Inr (Version 0 (map digits_val (split CHR ''.'' s)) None None None None)"
proof -
  obtain p ps where sp: "split CHR ''.'' s = p # ps"
    by (cases "split CHR ''.'' s") simp_all
  from assms sp have p: "p \<noteq> []" "list_all is_digit p"
    and ps: "list_all (\<lambda>p. p \<noteq> [] \<and> list_all is_digit p) ps"
    by (simp_all add: dotted_numeric_def)
  from release_of_pieces [of s] sp p ps
  have tw: "takeWhile is_digit s = p"
    and rt: "release_tail (dropWhile is_digit s) = (map digits_val ps, [])"
    and al: "\<forall>c \<in> set s. is_digit c \<or> c = CHR ''.''" by simp_all
  from al have plain: "\<forall>c \<in> set s. \<not> is_space c \<and> lower c = c"
    using is_digit_cases dot_plain by blast
  from tw p obtain d t where s: "s = d # t" and d: "is_digit d"
    by (cases s) (auto split: if_splits)
  have nospace: "dropWhile is_space s = s"
    using s d is_digit_cases by simp
  have "rev s \<noteq> []" using s by simp
  moreover have "\<not> is_space (hd (rev s))"
    using plain s by (metis calculation hd_in_set set_rev)
  ultimately have "dropWhile is_space (rev s) = rev s"
    by (cases "rev s") simp_all
  with nospace have st: "strip s = s" by (simp add: strip_def)
  from plain have lo: "map lower s = s" by (simp add: map_idI)
  have hdv: "hd s \<noteq> CHR ''v''" using s d is_digit_cases by auto
  have ep: "parse_epoch s = (0, s)"
  proof (cases "dropWhile is_digit s")
    case Nil
    show ?thesis unfolding parse_epoch_def Nil by simp
  next
    case (Cons c r)
    then have "c \<in> set s" by (metis list.set_intros(1) set_dropWhileD)
    moreover from Cons have "\<not> is_digit c" by (metis hd_dropWhile list.sel(1) list.distinct(1))
    ultimately have "c = CHR ''.''" using al by blast
    then show ?thesis unfolding parse_epoch_def Cons by simp
  qed
  have rel: "parse_release s = Some (map digits_val (p # ps), [])"
    using tw p rt by (simp add: parse_release_def)
  have ne: "s \<noteq> []" using s by simp
  show ?thesis
    by (simp add: parse_version_def st lo hdv ep rel parse_tail_empty sp Let_def ne)
qed

subsection \<open>The loop over the record types\<close>

lemma dict_set_keys:
  "map fst (dict_set d k v) = (if k \<in> set (map fst d) then map fst d else map fst d @ [k])"
  by (induction d) (fastforce split: if_splits)+

lemma dict_set_entries: "set (dict_set d k v) \<subseteq> insert (k, v) (set d)"
  by (induction d) (auto split: if_splits)

lemma read_all_Inl: "read_all body rts d = Inl e \<Longrightarrow> \<exists>rt \<in> set rts. body rt = Inl e"
  by (induction rts arbitrary: d) (auto split: sum.splits)

lemma read_all_isl: "rt \<in> set rts \<Longrightarrow> isl (body rt) \<Longrightarrow> isl (read_all body rts d)"
proof (induction rts arbitrary: d)
  case Nil
  then show ?case by simp
next
  case (Cons a rts)
  show ?case
  proof (cases "body a")
    case (Inl e)
    then show ?thesis by simp
  next
    case (Inr df)
    with Cons.prems have "rt \<in> set rts" by auto
    with Cons.IH Cons.prems Inr show ?thesis by simp
  qed
qed

lemma read_all_keys:
  "read_all body rts d = Inr d' \<Longrightarrow>
     set (map fst d') = set (map fst d) \<union> set rts \<and>
     (distinct (map fst d) \<longrightarrow> distinct (map fst d')) \<and>
     (distinct (map fst d @ rts) \<longrightarrow> map fst d' = map fst d @ rts)"
proof (induction rts arbitrary: d)
  case Nil
  then show ?case by simp
next
  case (Cons a rts)
  from Cons.prems obtain df where b: "body a = Inr df"
    and r: "read_all body rts (dict_set d a df) = Inr d'"
    by (auto split: sum.splits)
  from Cons.IH [OF r] show ?case
    by (auto simp: dict_set_keys split: if_splits)
qed

lemma read_all_values:
  "read_all body rts d = Inr d' \<Longrightarrow> \<forall>(k, df) \<in> set d. body k = Inr df \<Longrightarrow>
     \<forall>(k, df) \<in> set d'. body k = Inr df"
proof (induction rts arbitrary: d)
  case Nil
  then show ?case by simp
next
  case (Cons a rts)
  from Cons.prems obtain df where b: "body a = Inr df"
    and r: "read_all body rts (dict_set d a df) = Inr d'"
    by (auto split: sum.splits)
  have "\<forall>(k, df) \<in> set (dict_set d a df). body k = Inr df"
    using dict_set_entries [of d a df] Cons.prems(2) b by auto
  from Cons.IH [OF r this] show ?case .
qed

lemma unique_sorted: "unique xs = sorted_list_of_set (set xs)"
  by (simp add: unique_def sorted_list_of_set_sort_remdups)

lemma read_iff_file_Inr:
  assumes "read_iff_file file record_types callsigns chunksize = Inr r"
  shows "\<exists>version lrts d.
           detect_version file = Inr version \<and> line_record_types file = Inr lrts \<and>
           read_all (read_record_type version file lrts (callsign_list callsigns) chunksize)
             (case record_types of All \<Rightarrow> unique lrts | Many xs \<Rightarrow> xs | Scalar x \<Rightarrow> [x]) []
             = Inr d \<and>
           (case record_types of
              Scalar x \<Rightarrow> (\<exists>df. map_of d x = Some df \<and> r = Table df)
            | _ \<Rightarrow> r = Dict d)"
  using assms unfolding read_iff_file_def
  by (auto simp: bind_eq_Inr Let_def split: record_types.splits option.splits)

text \<open>
  C1. A call that returns, returns a single table when \<open>record_types\<close> is a scalar code
  (the table read for that code), a dictionary keyed by the requested codes when it is a
  list, and for \<open>'all'\<close> a dictionary whose keys are the distinct record types of the
  file's lines, in ascending order. Every entry is the table read for its key.
\<close>

theorem C1_result_shape:
  assumes "read_iff_file file record_types callsigns chunksize = Inr r"
  shows "\<exists>version lrts.
           detect_version file = Inr version \<and> line_record_types file = Inr lrts \<and>
           (case record_types of
              Scalar x \<Rightarrow>
                (\<exists>df. r = Table df \<and>
                   read_record_type version file lrts (callsign_list callsigns) chunksize x
                     = Inr df)
            | Many xs \<Rightarrow>
                (\<exists>d. r = Dict d \<and> set (map fst d) = set xs \<and> distinct (map fst d) \<and>
                   (\<forall>(k, df) \<in> set d.
                      read_record_type version file lrts (callsign_list callsigns) chunksize k
                        = Inr df))
            | All \<Rightarrow>
                (\<exists>d. r = Dict d \<and> map fst d = sorted_list_of_set (set lrts) \<and>
                   (\<forall>(k, df) \<in> set d.
                      read_record_type version file lrts (callsign_list callsigns) chunksize k
                        = Inr df)))"
proof -
  from read_iff_file_Inr [OF assms] obtain version lrts d where
    v: "detect_version file = Inr version" and l: "line_record_types file = Inr lrts" and
    ra: "read_all (read_record_type version file lrts (callsign_list callsigns) chunksize)
             (case record_types of All \<Rightarrow> unique lrts | Many xs \<Rightarrow> xs | Scalar x \<Rightarrow> [x]) []
             = Inr d" and
    sh: "(case record_types of
              Scalar x \<Rightarrow> (\<exists>df. map_of d x = Some df \<and> r = Table df)
            | _ \<Rightarrow> r = Dict d)"
    by blast
  let ?body = "read_record_type version file lrts (callsign_list callsigns) chunksize"
  have vals: "\<forall>(k, df) \<in> set d. ?body k = Inr df"
    using read_all_values [OF ra] by simp
  have "case record_types of
              Scalar x \<Rightarrow> (\<exists>df. r = Table df \<and> ?body x = Inr df)
            | Many xs \<Rightarrow>
                (\<exists>d. r = Dict d \<and> set (map fst d) = set xs \<and> distinct (map fst d) \<and>
                   (\<forall>(k, df) \<in> set d. ?body k = Inr df))
            | All \<Rightarrow>
                (\<exists>d. r = Dict d \<and> map fst d = sorted_list_of_set (set lrts) \<and>
                   (\<forall>(k, df) \<in> set d. ?body k = Inr df))"
  proof (cases record_types)
    case All
    with ra have "map fst d = unique lrts"
      using read_all_keys [of ?body "unique lrts" "[]" d]
      by (simp add: unique_def)
    with All sh vals show ?thesis by (simp add: unique_sorted)
  next
    case (Many xs)
    with ra have "set (map fst d) = set xs \<and> distinct (map fst d)"
      using read_all_keys [of ?body xs "[]" d] by simp
    with Many sh vals show ?thesis by simp
  next
    case (Scalar x)
    with sh obtain df where m: "map_of d x = Some df" and r: "r = Table df" by auto
    from m have "(x, df) \<in> set d" by (rule map_of_SomeD)
    with vals have "?body x = Inr df" by auto
    with Scalar r show ?thesis by simp
  qed
  with v l show ?thesis by blast
qed

end
